theory Spec2Isabelle
  imports Complex_Main
begin

section \<open>Floating-point values\<close>

text \<open>
  The program computes with Python floats and numpy \<open>float64\<close> scalars. A finite value is
  modelled by the real number it stands for (rounding error and overflow are not
  modelled, and zero carries no sign); the three special values that change the control
  flow of the program are kept: \<open>nan\<close>, on which every comparison is false, and the two
  infinities that numpy produces when a non-zero number is divided by zero.
\<close>

datatype fval = Num real | PInf | NInf | NaN

fun fneg :: "fval \<Rightarrow> fval" where
  "fneg (Num x) = Num (- x)"
| "fneg PInf = NInf"
| "fneg NInf = PInf"
| "fneg NaN = NaN"

fun fabs :: "fval \<Rightarrow> fval" where
  "fabs (Num x) = Num \<bar>x\<bar>"
| "fabs PInf = PInf"
| "fabs NInf = PInf"
| "fabs NaN = NaN"

text \<open>\<open>flt a b\<close> is \<open>a < b\<close>, \<open>fle a b\<close> is \<open>a <= b\<close>; \<open>b > a\<close> is \<open>flt a b\<close> again.\<close>

fun flt :: "fval \<Rightarrow> fval \<Rightarrow> bool" where
  "flt (Num x) (Num y) = (x < y)"
| "flt NaN b = False"
| "flt a NaN = False"
| "flt a NInf = False"
| "flt NInf b = True"
| "flt PInf b = False"
| "flt a PInf = True"

fun fle :: "fval \<Rightarrow> fval \<Rightarrow> bool" where
  "fle (Num x) (Num y) = (x \<le> y)"
| "fle NaN b = False"
| "fle a NaN = False"
| "fle NInf b = True"
| "fle a PInf = True"
| "fle a NInf = False"
| "fle PInf b = False"

fun fsub :: "fval \<Rightarrow> fval \<Rightarrow> fval" where
  "fsub (Num x) (Num y) = Num (x - y)"
| "fsub NaN b = NaN"
| "fsub a NaN = NaN"
| "fsub PInf PInf = NaN"
| "fsub NInf NInf = NaN"
| "fsub PInf b = PInf"
| "fsub NInf b = NInf"
| "fsub a PInf = NInf"
| "fsub a NInf = PInf"

fun fmul :: "fval \<Rightarrow> fval \<Rightarrow> fval" where
  "fmul (Num x) (Num y) = Num (x * y)"
| "fmul NaN b = NaN"
| "fmul a NaN = NaN"
| "fmul (Num x) b = (if x = 0 then NaN else if 0 < x then b else fneg b)"
| "fmul a (Num y) = (if y = 0 then NaN else if 0 < y then a else fneg a)"
| "fmul a b = (if a = b then PInf else NInf)"

text \<open>
  Division as numpy does it for \<open>float64\<close>: a zero divisor gives \<open>nan\<close> for \<open>0/0\<close> and an
  infinity otherwise (with a warning, not an exception).
\<close>

fun fdiv :: "fval \<Rightarrow> fval \<Rightarrow> fval" where
  "fdiv (Num x) (Num y) =
     (if y = 0 then (if x = 0 then NaN else if 0 < x then PInf else NInf) else Num (x / y))"
| "fdiv NaN b = NaN"
| "fdiv a NaN = NaN"
| "fdiv (Num x) b = Num 0"
| "fdiv a (Num y) = (if 0 \<le> y then a else fneg a)"
| "fdiv a b = NaN"

text \<open>
  Python's builtins \<open>max(a, b)\<close> and \<open>min(a, b)\<close> return \<open>a\<close> unless \<open>b\<close> compares
  strictly greater (smaller), so a \<open>nan\<close> in first place is returned.
\<close>

definition py_max :: "fval \<Rightarrow> fval \<Rightarrow> fval" where
  "py_max a b = (if flt a b then b else a)"

definition py_min :: "fval \<Rightarrow> fval \<Rightarrow> fval" where
  "py_min a b = (if flt b a then b else a)"

text \<open>
  \<open>round(x, n)\<close> rounds to the nearest multiple of \<open>10^-n\<close>, a tie going to the even
  neighbour; \<open>nan\<close> and the infinities are returned as they are.
\<close>

definition round_half_even :: "real \<Rightarrow> int" where
  "round_half_even y =
     (let f = \<lfloor>y\<rfloor>; d = y - of_int f
      in if d < 1 / 2 then f else if 1 / 2 < d then f + 1 else if even f then f else f + 1)"

definition round_real :: "real \<Rightarrow> nat \<Rightarrow> real" where
  "round_real x n = of_int (round_half_even (x * 10 ^ n)) / 10 ^ n"

fun py_round :: "fval \<Rightarrow> nat \<Rightarrow> fval" where
  "py_round (Num x) n = Num (round_real x n)"
| "py_round a n = a"

section \<open>Configuration\<close>

datatype direction = LONG | SHORT

definition MAGIC_NUMBER :: int where "MAGIC_NUMBER = 123456"
definition LOOKBACK :: nat where "LOOKBACK = 100"
definition ENTRY_Z :: real where "ENTRY_Z = 22 / 10"
definition EXIT_Z :: real where "EXIT_Z = 2 / 10"
definition STOP_Z :: real where "STOP_Z = 4"
definition RISK_PER_TRADE :: real where "RISK_PER_TRADE = 1 / 100"
definition MAX_TRADE_DURATION_HOURS :: real where "MAX_TRADE_DURATION_HOURS = 8"

section \<open>Errors and effects\<close>

datatype error = ImportError | IndexError | ZeroDivisionError | TypeError

datatype order_type = ORDER_TYPE_BUY | ORDER_TYPE_SELL

record request =
  rq_volume :: fval
  rq_type :: order_type
  rq_price :: real
  rq_deviation :: "nat option"
  rq_comment :: string

datatype reason = Z_fmt fval | Label string

text \<open>
  Console output and calls that act on the terminal, in the order the program makes
  them. The payload of a message is the value that its format string prints.
\<close>

datatype effect =
    Print_init_failed
  | Print_recovered direction real
  | Print_risk_too_low fval
  | Print_logged string direction real reason
  | Print_online
  | Print_connection_lost
  | Print_stopping
  | Positions_get
  | Shutdown
  | Initialize
  | Sleep nat
  | Order_send request

section \<open>Risk calculation\<close>

text \<open>
  \<open>get_lot_size(risk_amount, stop_pips)\<close>. The tick value is read from the terminal and is a
  parameter here. \<open>risk_amount\<close> and the tick value are Python floats; \<open>stop_pips\<close> is the
  numpy scalar that the main loop passes. When \<open>max\<close> replaces it by the literal \<open>10.0\<close>
  the divisor is a Python float, and Python raises \<open>ZeroDivisionError\<close> on a zero
  divisor; otherwise the divisor is a numpy scalar and the division follows \<open>fdiv\<close>.
\<close>

definition get_lot_size :: "real \<Rightarrow> real \<Rightarrow> fval \<Rightarrow> error + (fval \<times> effect list)" where
  "get_lot_size tick_value risk_amount stop_pips =
     (let stop_pips' = py_max stop_pips (Num 10) in
      case (if flt stop_pips (Num 10)
            then (if 10 * tick_value * 100 = 0 then Inl ZeroDivisionError
                  else Inr (Num (risk_amount / (10 * tick_value * 100))))
            else Inr (fdiv (Num risk_amount) (fmul (fmul stop_pips' (Num tick_value)) (Num 100))))
      of Inl e \<Rightarrow> Inl e
       | Inr lot \<Rightarrow>
           if flt lot (Num (1 / 100)) then Inr (Num 0, [Print_risk_too_low lot])
           else Inr (py_round (py_min lot (Num 10)) 2, []))"

section \<open>Time\<close>

text \<open>
  A \<open>datetime\<close> is the number of microseconds since the epoch, in UTC, the zone that
  the functions below name \<open>pytz.utc\<close>.
\<close>

type_synonym datetime = int

definition fromtimestamp :: "int \<Rightarrow> datetime" where
  "fromtimestamp secs = secs * 1000000"

definition total_seconds :: "int \<Rightarrow> real" where
  "total_seconds delta = of_int delta / 1000000"

definition weekday :: "datetime \<Rightarrow> int" where
  "weekday t = (t div 86400000000 + 3) mod 7"

definition hour :: "datetime \<Rightarrow> int" where
  "hour t = (t div 3600000000) mod 24"

section \<open>State recovery\<close>

record position_info =
  magic :: int
  ptype :: nat
  price_open :: real
  time :: int
  volume :: real

definition POSITION_TYPE_BUY :: nat where "POSITION_TYPE_BUY = 0"

text \<open>
  \<open>check_existing_position()\<close>. The argument is what \<open>positions_get\<close> answers: \<open>None\<close> or
  the tuple of open positions of the symbol, in the terminal's order.
\<close>

definition check_existing_position ::
  "position_info list option \<Rightarrow>
   (direction option \<times> real option \<times> datetime option \<times> fval) \<times> effect list" where
  "check_existing_position positions =
     (case positions of
        None \<Rightarrow> ((None, None, None, Num 0), [Positions_get])
      | Some ps \<Rightarrow>
          (case filter (\<lambda>p. magic p = MAGIC_NUMBER) ps of
             [] \<Rightarrow> ((None, None, None, Num 0), [Positions_get])
           | pos # _ \<Rightarrow>
               (let direction = (if ptype pos = POSITION_TYPE_BUY then LONG else SHORT)
                in ((Some direction, Some (price_open pos), Some (fromtimestamp (time pos)),
                     Num (volume pos)),
                    [Positions_get, Print_recovered direction (price_open pos)]))))"

section \<open>Audit trail\<close>

record log_entry =
  Timestamp :: datetime
  Action :: string
  Status :: direction
  Price :: real
  Lots :: fval
  PnL_JPY :: fval
  Reason :: reason

datatype csv_line = Header | Row log_entry

text \<open>
  \<open>log_trade\<close> appends one row to the file, after a header when the file does not exist
  yet (\<open>None\<close>). \<open>stamp\<close> is the local time that \<open>datetime.now()\<close> reads.
\<close>

definition log_trade ::
  "datetime \<Rightarrow> string \<Rightarrow> direction \<Rightarrow> real \<Rightarrow> fval \<Rightarrow> fval \<Rightarrow> reason \<Rightarrow>
   csv_line list option \<Rightarrow> csv_line list option \<times> effect list" where
  "log_trade stamp action status price lots pnl reason file =
     (let entry = \<lparr>Timestamp = stamp, Action = action, Status = status,
                    Price = round_real price 3, Lots = lots, PnL_JPY = py_round pnl 2,
                    Reason = reason\<rparr>
      in (Some ((case file of None \<Rightarrow> [Header] | Some ls \<Rightarrow> ls) @ [Row entry]),
          [Print_logged action status price reason]))"

section \<open>What the terminal answers during one cycle\<close>

record bar =
  high :: real
  low :: real
  close :: real

record env =
  terminal_connected :: bool
  copy_rates :: "bar list option"
  account_equity :: real
  trade_tick_value :: real
  tick_ask :: real
  tick_bid :: real
  order_retcode :: nat
  now_utc_first :: datetime
  now_utc_second :: datetime
  now_local :: datetime

definition TRADE_RETCODE_DONE :: nat where "TRADE_RETCODE_DONE = 10009"

section \<open>Execution engine\<close>

definition send_market_order :: "env \<Rightarrow> direction \<Rightarrow> fval \<Rightarrow> string \<Rightarrow> nat \<times> effect list" where
  "send_market_order e action lot cmt =
     (let order_type = (if action = LONG then ORDER_TYPE_BUY else ORDER_TYPE_SELL);
          px = (if action = LONG then tick_ask e else tick_bid e)
      in (order_retcode e,
          [Order_send \<lparr>rq_volume = lot, rq_type = order_type, rq_price = px,
                       rq_deviation = Some 20, rq_comment = cmt\<rparr>]))"

definition close_position :: "env \<Rightarrow> direction \<Rightarrow> fval \<Rightarrow> string \<Rightarrow> nat \<times> effect list" where
  "close_position e action lot cmt =
     (let order_type = (if action = LONG then ORDER_TYPE_SELL else ORDER_TYPE_BUY);
          px = (if action = LONG then tick_bid e else tick_ask e)
      in (order_retcode e,
          [Order_send \<lparr>rq_volume = lot, rq_type = order_type, rq_price = px,
                       rq_deviation = None, rq_comment = cmt\<rparr>]))"

section \<open>Indicators\<close>

definition tail :: "nat \<Rightarrow> 'a list \<Rightarrow> 'a list" where
  "tail n xs = drop (length xs - n) xs"

definition mean :: "real list \<Rightarrow> real" where
  "mean xs = sum_list xs / real (length xs)"

text \<open>\<open>Series.std()\<close>: the sample standard deviation, \<open>nan\<close> on fewer than two values.\<close>

definition std :: "real list \<Rightarrow> fval" where
  "std xs =
     (if length xs < 2 then NaN
      else Num (sqrt (sum_list (map (\<lambda>x. (x - mean xs)\<^sup>2) xs) / real (length xs - 1))))"

text \<open>
  The last value of \<open>rolling(w).mean()\<close>: \<open>nan\<close> unless the last \<open>w\<close> rows are all there and
  none of them is \<open>nan\<close> (\<open>None\<close> in the column).
\<close>

definition rolling_mean_last :: "nat \<Rightarrow> real option list \<Rightarrow> fval" where
  "rolling_mean_last w col =
     (let win = tail w col
      in if length win = w \<and> None \<notin> set win then Num (sum_list (map the win) / real w)
         else NaN)"

text \<open>The true range of a row; the first row has no previous close and gets \<open>nan\<close>.\<close>

fun true_range :: "real option \<Rightarrow> bar \<Rightarrow> real option" where
  "true_range None b = None"
| "true_range (Some pc) b =
     Some (max (high b - low b) (max \<bar>high b - pc\<bar> \<bar>low b - pc\<bar>))"

definition get_indicators ::
  "bar list option \<Rightarrow> error + (fval \<times> real \<times> fval \<times> bool) option" where
  "get_indicators rates =
     (case rates of
        None \<Rightarrow> Inr None
      | Some df \<Rightarrow>
          if df = [] then Inl IndexError
          else
            (let closes = map close df;
                 close_series = tail LOOKBACK closes;
                 z_score = fdiv (Num (last closes - mean close_series)) (std close_series);
                 tr = map2 true_range (None # map Some closes) df;
                 atr = rolling_mean_last 14 tr;
                 ma200 = rolling_mean_last 200 (map Some closes);
                 is_trending = flt (Num (3 / 100))
                                 (fdiv (fabs (fsub (Num (last closes)) ma200)) ma200)
             in Inr (Some (z_score, last closes, atr, is_trending))))"

section \<open>Main loop\<close>

text \<open>
  The module-level variables of the script, and the audit file (\<open>None\<close> while it does
  not exist).
\<close>

record state =
  active_position :: "direction option"
  entry_price :: "real option"
  trade_entry_time :: "datetime option"
  trade_lots :: fval
  audit_csv :: "csv_line list option"

text \<open>The entry branch of the loop body, taken when \<open>active_position is None\<close>.\<close>

definition entry_branch ::
  "env \<Rightarrow> state \<Rightarrow> fval \<Rightarrow> real \<Rightarrow> fval \<Rightarrow> bool \<Rightarrow> error + (state \<times> effect list)" where
  "entry_branch e s z px atr is_trending =
     (if flt (Num ENTRY_Z) (fabs z) \<and> \<not> is_trending then
        (let risk_cash = account_equity e * RISK_PER_TRADE;
             stop_pips = fmul atr (Num 200)
         in case get_lot_size (trade_tick_value e) risk_cash stop_pips of
              Inl err \<Rightarrow> Inl err
            | Inr (lots, out) \<Rightarrow>
                (let s1 = s\<lparr>trade_lots := lots\<rparr> in
                 if fle (Num (1 / 100)) lots then
                   (let dir = (if flt (Num 0) z then SHORT else LONG);
                        (retcode, sent) = send_market_order e dir lots ''Z-Entry''
                    in if retcode = TRADE_RETCODE_DONE then
                         (let s2 = s1\<lparr>active_position := Some dir, entry_price := Some px,
                                      trade_entry_time := Some (now_utc_first e)\<rparr>;
                              (file, logged) =
                                 log_trade (now_local e) ''ENTRY'' dir px lots (Num 0) (Z_fmt z)
                                   (audit_csv s2)
                          in Inr (s2\<lparr>audit_csv := file\<rparr>, out @ sent @ logged))
                       else Inr (s1, out @ sent))
                 else Inr (s1, out)))
      else Inr (s, []))"

text \<open>The reason of an exit, as the nested conditional of the loop body chooses it.\<close>

definition exit_reason :: "bool \<Rightarrow> bool \<Rightarrow> bool \<Rightarrow> string" where
  "exit_reason hit_target hit_stop time_exit =
     (if hit_target then ''Target''
      else if hit_stop then ''Z-Stop''
      else if time_exit then ''Time''
      else ''Weekend'')"

text \<open>
  The exit branch, taken when a position is held. Subtracting from a \<open>None\<close> entry time
  or entry price raises \<open>TypeError\<close>.
\<close>

definition exit_branch ::
  "env \<Rightarrow> state \<Rightarrow> direction \<Rightarrow> fval \<Rightarrow> real \<Rightarrow> error + (state \<times> effect list)" where
  "exit_branch e s held z px =
     (case trade_entry_time s of
        None \<Rightarrow> Inl TypeError
      | Some t0 \<Rightarrow>
          (let duration = total_seconds (now_utc_first e - t0) / 3600;
               hit_target = fle (fabs z) (Num EXIT_Z);
               hit_stop = fle (Num STOP_Z) (fabs z);
               time_exit = (MAX_TRADE_DURATION_HOURS < duration);
               current_time = now_utc_second e;
               is_weekend_close = (weekday current_time = 4 \<and> 20 \<le> hour current_time)
           in if hit_target \<or> hit_stop \<or> time_exit \<or> is_weekend_close then
                (let why = exit_reason hit_target hit_stop time_exit;
                     (retcode, sent) = close_position e held (trade_lots s) why
                 in if retcode = TRADE_RETCODE_DONE then
                      (case entry_price s of
                         None \<Rightarrow> Inl TypeError
                       | Some ep \<Rightarrow>
                           (let pnl = fmul (fmul (Num (if held = SHORT then ep - px else px - ep))
                                              (trade_lots s)) (Num 100000);
                                (file, logged) =
                                   log_trade (now_local e) ''EXIT'' held px (trade_lots s) pnl
                                     (Label why) (audit_csv s)
                            in Inr (s\<lparr>audit_csv := file, active_position := None\<rparr>,
                                    sent @ logged)))
                    else Inr (s, sent))
              else Inr (s, [])))"

text \<open>
  One pass through the body of \<open>while True\<close>. An exception leaves the loop and ends the
  process (\<open>Inl\<close>); the two \<open>continue\<close> statements skip the sleep at the end.
\<close>

definition cycle :: "env \<Rightarrow> state \<Rightarrow> error + (state \<times> effect list)" where
  "cycle e s =
     (if \<not> terminal_connected e
      then Inr (s, [Print_connection_lost, Shutdown, Sleep 5, Initialize])
      else
        (case get_indicators (copy_rates e) of
           Inl err \<Rightarrow> Inl err
         | Inr None \<Rightarrow> Inr (s, [])
         | Inr (Some (z, px, atr, is_trending)) \<Rightarrow>
             (case (case active_position s of
                      None \<Rightarrow> entry_branch e s z px atr is_trending
                    | Some held \<Rightarrow> exit_branch e s held z px)
              of Inl err \<Rightarrow> Inl err
               | Inr (s', out) \<Rightarrow> Inr (s', out @ [Sleep 60]))))"

text \<open>
  The loop, run over the answers of the terminal for as many cycles as pass before the
  interrupt.
\<close>

fun run :: "env list \<Rightarrow> state \<Rightarrow> error + (state \<times> effect list)" where
  "run [] s = Inr (s, [])"
| "run (e # es) s =
     (case cycle e s of
        Inl err \<Rightarrow> Inl err
      | Inr (s1, out1) \<Rightarrow>
          (case run es s1 of
             Inl err \<Rightarrow> Inl err
           | Inr (s2, out2) \<Rightarrow> Inr (s2, out1 @ out2)))"

text \<open>
  The assignment that loads the recovered position into the module-level variables.
\<close>

definition recover :: "position_info list option \<Rightarrow> state \<Rightarrow> state \<times> effect list" where
  "recover positions s =
     (case check_existing_position positions of
        ((held, ep, t0, lots), out) \<Rightarrow>
          (s\<lparr>active_position := held, entry_price := ep, trade_entry_time := t0,
             trade_lots := lots\<rparr>, out))"

text \<open>
  The statements of the script from line 8 to its end, which run once the imports of
  lines 1 to 6 have succeeded. \<open>quit(code)\<close> raises \<open>SystemExit(code)\<close>, and the process
  ends with status \<open>code\<close>, or with status 0 when there is no argument (\<open>None\<close>). An
  uncaught exception ends the process with status 1, after the \<open>finally\<close> clause has
  shut the terminal down. The interrupt is caught, and the script then runs to its end.
\<close>

definition sys_exit_status :: "nat option \<Rightarrow> nat" where
  "sys_exit_status code = (case code of None \<Rightarrow> 0 | Some n \<Rightarrow> n)"

datatype outcome =
    Quit nat "effect list"
  | Crashed error
  | Stopped state "effect list"


definition script ::
  "bool \<Rightarrow> position_info list option \<Rightarrow> csv_line list option \<Rightarrow> env list \<Rightarrow> outcome" where
  "script initialize_ok positions file cycles =
     (if \<not> initialize_ok then Quit (sys_exit_status None) [Initialize, Print_init_failed]
      else
        (case recover positions
                \<lparr>active_position = None, entry_price = None, trade_entry_time = None,
                 trade_lots = Num 0, audit_csv = file\<rparr> of
           (s0, out0) \<Rightarrow>
             (case run cycles s0 of
                Inl err \<Rightarrow> Crashed err
              | Inr (s, out) \<Rightarrow>
                  Stopped s
                    ([Initialize] @ out0 @ [Print_online] @ out @ [Print_stopping, Shutdown]))))"




section \<open>Reference definitions\<close>

text \<open>
  The size before rounding and clamping: the risk amount over the stop distance, floored
  at 10, times the tick value times the contract multiplier 100.
\<close>

definition raw_lot :: "real \<Rightarrow> real \<Rightarrow> real \<Rightarrow> real" where
  "raw_lot tick_value risk_amount stop_pips = risk_amount / (max stop_pips 10 * tick_value * 100)"

text \<open>
  The sizing contract as the specification words it, with the constants of the program
  (minimum stop 10, multiplier 100, lot step and minimum lot 0.01, maximum lot 10): the size
  is rounded down to the lot step, clamped, and 0 when the rounded size is below the
  minimum lot.
\<close>

definition risk_sizer_spec :: "real \<Rightarrow> real \<Rightarrow> real \<Rightarrow> real" where
  "risk_sizer_spec tick_value risk_amount stop_distance =
     (let floored = max stop_distance 10;
          size = risk_amount / (floored * tick_value * 100);
          rounded = of_int \<lfloor>size * 100\<rfloor> / 100;
          clamped = max 0 (min rounded 10)
      in if rounded < 1 / 100 then 0 else clamped)"

text \<open>
  The z-score as the specification words it: the last close minus the mean of the closes
  in the lookback window, over their sample standard deviation.
\<close>

definition spec_mean :: "real list \<Rightarrow> real" where
  "spec_mean w = (\<Sum>i<length w. w ! i) / real (length w)"

definition spec_stddev :: "real list \<Rightarrow> real" where
  "spec_stddev w = sqrt ((\<Sum>i<length w. (w ! i - spec_mean w)\<^sup>2) / (real (length w) - 1))"

definition spec_zScore :: "nat \<Rightarrow> real list \<Rightarrow> real" where
  "spec_zScore lookback closes =
     (let w = drop (length closes - lookback) closes
      in (last closes - spec_mean w) / spec_stddev w)"

text \<open>
  Recovery as the specification words it: among the positions that carry the tag, the one
  opened earliest.
\<close>

fun earliest_opened :: "position_info list \<Rightarrow> position_info option" where
  "earliest_opened [] = None"
| "earliest_opened (p # ps) =
     (case earliest_opened ps of
        None \<Rightarrow> Some p
      | Some q \<Rightarrow> if time p \<le> time q then Some p else Some q)"

definition recover_spec ::
  "position_info list \<Rightarrow> direction option \<times> real option \<times> datetime option \<times> fval" where
  "recover_spec ps =
     (case earliest_opened (filter (\<lambda>p. magic p = MAGIC_NUMBER) ps) of
        None \<Rightarrow> (None, None, None, Num 0)
      | Some p \<Rightarrow>
          (Some (if ptype p = POSITION_TYPE_BUY then LONG else SHORT), Some (price_open p),
           Some (fromtimestamp (time p)), Num (volume p)))"

text \<open>The effects that submit an order to the terminal.\<close>

fun is_order :: "effect \<Rightarrow> bool" where
  "is_order (Order_send rq) = True"
| "is_order x = False"

section \<open>Sample inputs\<close>

text \<open>
  Sixteen hourly bars: fifteen at 100 and a last one at 116. Their mean is 101, their
  sample standard deviation 4, so the z-score of the last close is 3.75; the average true
  range over the last fourteen bars is 8/7.
\<close>

definition calm :: bar where
  "calm = \<lparr>high = 100, low = 100, close = 100\<rparr>"

definition spike :: bar where
  "spike = \<lparr>high = 116, low = 116, close = 116\<rparr>"

definition calm_then_spike :: "bar list" where
  "calm_then_spike =
     [calm, calm, calm, calm, calm, calm, calm, calm, calm, calm, calm, calm, calm, calm, calm,
      spike]"

definition rising :: "bar list" where
  "rising = [\<lparr>high = 1, low = 1, close = 1\<rparr>, \<lparr>high = 2, low = 2, close = 2\<rparr>,
             \<lparr>high = 3, low = 3, close = 3\<rparr>]"

text \<open>
  A connected terminal on a Thursday, nine hours after the epoch, that fills orders.
\<close>

definition terminal_ok :: env where
  "terminal_ok =
     \<lparr>terminal_connected = True, copy_rates = Some calm_then_spike,
      account_equity = 1000000, trade_tick_value = 1, tick_ask = 11602 / 100, tick_bid = 116,
      order_retcode = 10009, now_utc_first = 32400000000, now_utc_second = 32400000000,
      now_local = 32400000000\<rparr>"

text \<open>The second of January 1970, a Friday, at 20:00 UTC.\<close>

definition friday_evening :: datetime where
  "friday_evening = 158400000000"

definition flat :: state where
  "flat = \<lparr>active_position = None, entry_price = None, trade_entry_time = None,
           trade_lots = Num 0, audit_csv = None\<rparr>"

definition holding_long :: state where
  "holding_long = \<lparr>active_position = Some LONG, entry_price = Some 110,
                   trade_entry_time = Some 0, trade_lots = Num (1 / 2), audit_csv = None\<rparr>"

definition opened_late :: position_info where
  "opened_late = \<lparr>magic = 123456, ptype = 0, price_open = 160, time = 200, volume = 1\<rparr>"

definition opened_early :: position_info where
  "opened_early = \<lparr>magic = 123456, ptype = 1, price_open = 158, time = 100, volume = 2\<rparr>"

definition foreign_position :: position_info where
  "foreign_position = \<lparr>magic = 7, ptype = 1, price_open = 150, time = 50, volume = 3\<rparr>"

section \<open>Rounding\<close>

lemma round_half_even_ge: "of_int n \<le> y \<Longrightarrow> n \<le> round_half_even y"
  unfolding round_half_even_def Let_def by (auto simp: le_floor_iff) linarith+

lemma round_half_even_le: "y \<le> of_int n \<Longrightarrow> round_half_even y \<le> n"
  unfolding round_half_even_def Let_def by (auto simp: floor_le_iff)

lemma round_half_even_mono: "y1 \<le> y2 \<Longrightarrow> round_half_even y1 \<le> round_half_even y2"
proof (cases "\<lfloor>y1\<rfloor> = \<lfloor>y2\<rfloor>")
  case True
  assume "y1 \<le> y2"
  with True show ?thesis unfolding round_half_even_def Let_def by auto
next
  case False
  assume le: "y1 \<le> y2"
  then have "\<lfloor>y1\<rfloor> \<le> \<lfloor>y2\<rfloor>" by (rule floor_mono)
  with False have lt: "\<lfloor>y1\<rfloor> + 1 \<le> \<lfloor>y2\<rfloor>" by simp
  have a: "round_half_even y1 \<le> \<lfloor>y1\<rfloor> + 1"
    unfolding round_half_even_def Let_def by auto
  have b: "\<lfloor>y2\<rfloor> \<le> round_half_even y2"
    unfolding round_half_even_def Let_def by auto
  from a b lt show ?thesis by linarith
qed

lemma round_real_mono: "x1 \<le> x2 \<Longrightarrow> round_real x1 n \<le> round_real x2 n"
  unfolding round_real_def
  by (intro divide_right_mono) (auto intro!: round_half_even_mono mult_right_mono)

lemma round_real_2_ge: "1 / 100 \<le> x \<Longrightarrow> 1 / 100 \<le> round_real x 2"
proof -
  assume "1 / 100 \<le> x"
  then have "of_int 1 \<le> x * 10 ^ 2" by simp
  then have "1 \<le> round_half_even (x * 10 ^ 2)" by (rule round_half_even_ge)
  then have "(1::real) \<le> of_int (round_half_even (x * 10 ^ 2))" by linarith
  then show ?thesis unfolding round_real_def by simp
qed

lemma round_real_2_le: "x \<le> 10 \<Longrightarrow> round_real x 2 \<le> 10"
proof -
  assume "x \<le> 10"
  then have "x * 10 ^ 2 \<le> of_int 1000" by simp
  then have "round_half_even (x * 10 ^ 2) \<le> 1000" by (rule round_half_even_le)
  then have "of_int (round_half_even (x * 10 ^ 2)) \<le> (1000::real)" by linarith
  then show ?thesis unfolding round_real_def by simp
qed

section \<open>The risk sizer\<close>

lemma get_lot_size_Num:
  "tick_value \<noteq> 0 \<Longrightarrow>
   get_lot_size tick_value r (Num sp) =
     (if raw_lot tick_value r sp < 1 / 100
      then Inr (Num 0, [Print_risk_too_low (Num (raw_lot tick_value r sp))])
      else Inr (Num (round_real (min (raw_lot tick_value r sp) 10) 2), []))"
  unfolding get_lot_size_def py_max_def py_min_def Let_def raw_lot_def
  by (auto simp: max_def min_def)

lemma get_lot_size_PInf:
  "0 < tick_value \<Longrightarrow>
   get_lot_size tick_value r PInf = Inr (Num 0, [Print_risk_too_low (Num 0)])"
  unfolding get_lot_size_def py_max_def py_min_def Let_def by simp

lemma get_lot_size_NInf:
  "get_lot_size tick_value r NInf = get_lot_size tick_value r (Num 0)"
  unfolding get_lot_size_def py_max_def py_min_def Let_def by simp

text \<open>
  C6, as the code has it. For a finite stop distance and a non-zero tick value the sizer
  returns a finite size \<open>v\<close>: with the stop distance floored at 10 and
  \<open>lot = risk_amount / (stop * tick_value * 100)\<close>, the size is 0 exactly when the
  unrounded \<open>lot\<close> is below 0.01, and otherwise it is \<open>min(lot, 10)\<close> rounded to the
  nearest hundredth (not rounded down), which lies between 0.01 and 10.
\<close>

theorem get_lot_size_contract:
  "tick_value \<noteq> 0 \<Longrightarrow>
   \<exists>v out. get_lot_size tick_value risk_amount (Num stop_pips) = Inr (Num v, out) \<and>
     (v = 0 \<longleftrightarrow> raw_lot tick_value risk_amount stop_pips < 1 / 100) \<and>
     (1 / 100 \<le> raw_lot tick_value risk_amount stop_pips \<longrightarrow>
        v = round_real (min (raw_lot tick_value risk_amount stop_pips) 10) 2 \<and> 1 / 100 \<le> v) \<and>
     0 \<le> v \<and> v \<le> 10"
proof (cases "raw_lot tick_value risk_amount stop_pips < 1 / 100")
  case True
  assume "tick_value \<noteq> 0"
  with True show ?thesis by (simp add: get_lot_size_Num)
next
  case False
  assume tv: "tick_value \<noteq> 0"
  let ?m = "min (raw_lot tick_value risk_amount stop_pips) 10"
  from False have "1 / 100 \<le> ?m" by simp
  then have lo: "1 / 100 \<le> round_real ?m 2" by (rule round_real_2_ge)
  have hi: "round_real ?m 2 \<le> 10" by (rule round_real_2_le) simp
  from tv False lo hi show ?thesis by (simp add: get_lot_size_Num)
qed

theorem get_lot_size_contract_witness:
  "(1::real) \<noteq> 0 \<and> get_lot_size 1 10000 (Num (1600 / 7)) = Inr (Num (44 / 100), []) \<and>
   raw_lot 1 10000 (1600 / 7) = 7 / 16"
  using get_lot_size_contract [of 1 10000 "1600 / 7"]
  by (simp add: get_lot_size_Num raw_lot_def round_real_def round_half_even_def Let_def)

text \<open>
  C6 as stated fails: a risk amount of 16 at a stop distance of 10 and a tick value of 1
  gives 0.016 lots, which the program rounds up to 0.02 where rounding down to the lot
  step gives 0.01.
\<close>

theorem get_lot_size_rounds_to_nearest:
  "get_lot_size 1 16 (Num 10) = Inr (Num (2 / 100), []) \<and> risk_sizer_spec 1 16 10 = 1 / 100"
  by (simp add: get_lot_size_Num raw_lot_def risk_sizer_spec_def round_real_def
      round_half_even_def Let_def)

text \<open>
  C9. For a positive tick value and a stop distance that is not \<open>nan\<close>, the sizer returns
  a finite size for every risk amount, a larger risk amount never gives a smaller size, and
  no size exceeds the cap of 10 lots.
\<close>

theorem get_lot_size_mono:
  assumes "0 < tick_value" and "stop_pips \<noteq> NaN" and "r1 \<le> r2"
  shows "\<exists>v1 v2 out1 out2.
           get_lot_size tick_value r1 stop_pips = Inr (Num v1, out1) \<and>
           get_lot_size tick_value r2 stop_pips = Inr (Num v2, out2) \<and>
           v1 \<le> v2 \<and> v2 \<le> 10"
proof -
  have num: "\<exists>v1 v2 out1 out2.
           get_lot_size tick_value r1 (Num sp) = Inr (Num v1, out1) \<and>
           get_lot_size tick_value r2 (Num sp) = Inr (Num v2, out2) \<and>
           v1 \<le> v2 \<and> v2 \<le> 10" for sp
  proof -
    let ?l1 = "raw_lot tick_value r1 sp" and ?l2 = "raw_lot tick_value r2 sp"
    have pos: "0 < max sp 10 * tick_value * 100" using assms(1) by simp
    have le: "?l1 \<le> ?l2"
      unfolding raw_lot_def using pos assms(3) by (simp add: divide_right_mono)
    have tv: "tick_value \<noteq> 0" using assms(1) by simp
    have hi: "round_real (min ?l2 10) 2 \<le> 10" by (rule round_real_2_le) simp
    show ?thesis
    proof (cases "?l2 < 1 / 100")
      case True
      with le have "?l1 < 1 / 100" by simp
      with True tv show ?thesis by (simp add: get_lot_size_Num)
    next
      case False
      then have "1 / 100 \<le> min ?l2 10" by simp
      then have lo2: "1 / 100 \<le> round_real (min ?l2 10) 2" by (rule round_real_2_ge)
      show ?thesis
      proof (cases "?l1 < 1 / 100")
        case True
        with False tv lo2 hi show ?thesis by (simp add: get_lot_size_Num)
      next
        case l1: False
        from le have "min ?l1 10 \<le> min ?l2 10" by simp
        then have "round_real (min ?l1 10) 2 \<le> round_real (min ?l2 10) 2"
          by (rule round_real_mono)
        with False l1 tv hi show ?thesis by (simp add: get_lot_size_Num)
      qed
    qed
  qed
  show ?thesis
  proof (cases stop_pips)
    case (Num sp)
    then show ?thesis using num by simp
  next
    case PInf
    then show ?thesis using assms(1) by (simp add: get_lot_size_PInf)
  next
    case NInf
    then show ?thesis using num [of 0] by (simp add: get_lot_size_NInf)
  next
    case NaN
    then show ?thesis using assms(2) by simp
  qed
qed

theorem get_lot_size_mono_witness:
  "(0::real) < 1 \<and> Num (1600 / 7) \<noteq> NaN \<and> (1::real) \<le> 10000 \<and>
   get_lot_size 1 1 (Num (1600 / 7)) = Inr (Num 0, [Print_risk_too_low (Num (7 / 160000))]) \<and>
   get_lot_size 1 10000 (Num (1600 / 7)) = Inr (Num (44 / 100), [])"
  using get_lot_size_mono [of 1 "Num (1600 / 7)" 1 10000]
  by (simp add: get_lot_size_Num raw_lot_def round_real_def round_half_even_def Let_def)

section \<open>Startup\<close>


text \<open>
  Lines 21 to 23 on their own: had the imports succeeded, a terminal that cannot be
  initialised would make the script print the failure and leave through \<open>quit()\<close>, which
  has no argument, with status 0.
\<close>

lemma quit_after_failed_initialize:
  "script False positions csv cycles = Quit 0 [Initialize, Print_init_failed]"
  by (simp add: script_def sys_exit_status_def)



section \<open>State recovery picks the first match\<close>

lemma filter_first_match:
  assumes "i < length ps" and "P (ps ! i)" and "\<forall>j<i. \<not> P (ps ! j)"
  shows "\<exists>rest. filter P ps = ps ! i # rest"
proof -
  have split: "ps = take i ps @ ps ! i # drop (Suc i) ps"
    using assms(1) by (rule id_take_nth_drop)
  have "filter P (take i ps) = []"
    using assms(1,3) by (auto simp: filter_empty_conv in_set_conv_nth)
  then have "filter P (take i ps @ ps ! i # drop (Suc i) ps) = ps ! i # filter P (drop (Suc i) ps)"
    using assms(2) by simp
  with split show ?thesis by metis
qed

text \<open>
  C7, as the code has it. Recovery returns the flat tuple when the terminal reports nothing
  or no reported position carries the magic number. Otherwise it returns the direction, open
  price, open time and volume of the first position, in the order the terminal lists them,
  that carries the magic number; a position with another magic number is never adopted.
  Loading the result into the variables twice is the same as loading it once.
\<close>

theorem check_existing_position_first_match:
  "(positions = None \<or> (\<exists>ps. positions = Some ps \<and> (\<forall>p\<in>set ps. magic p \<noteq> MAGIC_NUMBER))
      \<longrightarrow> fst (check_existing_position positions) = (None, None, None, Num 0)) \<and>
   (\<forall>ps i. positions = Some ps \<and> i < length ps \<and> magic (ps ! i) = MAGIC_NUMBER \<and>
       (\<forall>j<i. magic (ps ! j) \<noteq> MAGIC_NUMBER)
      \<longrightarrow> fst (check_existing_position positions) =
            (Some (if ptype (ps ! i) = POSITION_TYPE_BUY then LONG else SHORT),
             Some (price_open (ps ! i)), Some (fromtimestamp (time (ps ! i))),
             Num (volume (ps ! i)))) \<and>
   recover positions (fst (recover positions s)) = recover positions s"
proof (intro conjI allI impI)
  assume "positions = None \<or> (\<exists>ps. positions = Some ps \<and> (\<forall>p\<in>set ps. magic p \<noteq> MAGIC_NUMBER))"
  then show "fst (check_existing_position positions) = (None, None, None, Num 0)"
  proof
    assume "positions = None"
    then show ?thesis by (simp add: check_existing_position_def)
  next
    assume "\<exists>ps. positions = Some ps \<and> (\<forall>p\<in>set ps. magic p \<noteq> MAGIC_NUMBER)"
    then obtain ps where ps: "positions = Some ps" "\<forall>p\<in>set ps. magic p \<noteq> MAGIC_NUMBER"
      by blast
    then have "filter (\<lambda>p. magic p = MAGIC_NUMBER) ps = []" by (simp add: filter_empty_conv)
    with ps(1) show ?thesis by (simp add: check_existing_position_def)
  qed
next
  fix ps i
  assume a: "positions = Some ps \<and> i < length ps \<and> magic (ps ! i) = MAGIC_NUMBER \<and>
       (\<forall>j<i. magic (ps ! j) \<noteq> MAGIC_NUMBER)"
  then obtain rest where "filter (\<lambda>p. magic p = MAGIC_NUMBER) ps = ps ! i # rest"
    using filter_first_match [of i ps "\<lambda>p. magic p = MAGIC_NUMBER"] by auto
  with a show "fst (check_existing_position positions) =
            (Some (if ptype (ps ! i) = POSITION_TYPE_BUY then LONG else SHORT),
             Some (price_open (ps ! i)), Some (fromtimestamp (time (ps ! i))),
             Num (volume (ps ! i)))"
    by (simp add: check_existing_position_def Let_def)
next
  show "recover positions (fst (recover positions s)) = recover positions s"
    by (simp add: recover_def split: prod.splits)
qed

text \<open>
  The theorem at two terminals: one lists a foreign position before two of the program's
  own, the other lists the foreign position only.
\<close>

theorem check_existing_position_first_match_witness:
  "fst (check_existing_position (Some [foreign_position, opened_early, opened_late])) =
     (Some SHORT, Some 158, Some (fromtimestamp 100), Num 2) \<and>
   fst (check_existing_position (Some [foreign_position])) = (None, None, None, Num 0)"
proof -
  have a: "fst (check_existing_position (Some [foreign_position, opened_early, opened_late])) =
     (Some SHORT, Some 158, Some (fromtimestamp 100), Num 2)"
    using check_existing_position_first_match
        [of "Some [foreign_position, opened_early, opened_late]" flat,
        THEN conjunct2, THEN conjunct1, rule_format,
        of "[foreign_position, opened_early, opened_late]" 1]
    by (simp add: foreign_position_def opened_early_def opened_late_def MAGIC_NUMBER_def
        POSITION_TYPE_BUY_def less_Suc_eq)
  have b: "fst (check_existing_position (Some [foreign_position])) = (None, None, None, Num 0)"
    using check_existing_position_first_match [of "Some [foreign_position]" flat, THEN conjunct1]
    by (simp add: foreign_position_def MAGIC_NUMBER_def)
  from a b show ?thesis by simp
qed

text \<open>
  C7 as stated fails: when the terminal lists a position opened at time 200 before one
  opened at time 100, both with the magic number, the program adopts the one listed first,
  not the one opened earliest.
\<close>

theorem first_listed_match_is_adopted:
  "fst (check_existing_position (Some [opened_late, opened_early])) =
     (Some LONG, Some 160, Some (fromtimestamp 200), Num 1) \<and>
   recover_spec [opened_late, opened_early] =
     (Some SHORT, Some 158, Some (fromtimestamp 100), Num 2)"
  by (simp add: check_existing_position_def recover_spec_def opened_late_def opened_early_def
      MAGIC_NUMBER_def POSITION_TYPE_BUY_def Let_def)

section \<open>The z-score\<close>

lemma spec_mean_eq: "spec_mean w = mean w"
  by (simp add: spec_mean_def mean_def sum_list_sum_nth atLeast0LessThan)

lemma sum_sq_eq: "(\<Sum>i<length w. (w ! i - m)\<^sup>2) = sum_list (map (\<lambda>x. (x - m)\<^sup>2) w)"
  by (simp add: sum_list_sum_nth atLeast0LessThan)

lemma spec_stddev_eq:
  "spec_stddev w = sqrt (sum_list (map (\<lambda>x. (x - mean w)\<^sup>2) w) / (real (length w) - 1))"
  by (simp add: spec_stddev_def spec_mean_eq sum_sq_eq)

lemma std_eq: "2 \<le> length w \<Longrightarrow> std w = Num (spec_stddev w)"
  by (simp add: std_def spec_stddev_eq of_nat_diff)

lemma std_zero_last:
  assumes "2 \<le> length w" and "spec_stddev w = 0"
  shows "last w = mean w"
proof -
  from assms(1) have ne: "w \<noteq> []" by auto
  from assms(1) have pos: "0 < real (length w) - 1" by simp
  from assms(2) have "sum_list (map (\<lambda>x. (x - mean w)\<^sup>2) w) / (real (length w) - 1) = 0"
    by (simp add: spec_stddev_eq)
  with pos have z: "sum_list (map (\<lambda>x. (x - mean w)\<^sup>2) w) = 0" by simp
  have "\<forall>y\<in>set (map (\<lambda>x. (x - mean w)\<^sup>2) w). y = 0"
    using z by (subst (asm) sum_list_nonneg_eq_0_iff) auto
  moreover have "last w \<in> set w" using ne by simp
  ultimately have "(last w - mean w)\<^sup>2 = 0" by auto
  then show ?thesis by simp
qed

lemma last_tail: "xs \<noteq> [] \<Longrightarrow> 0 < n \<Longrightarrow> last (tail n xs) = last xs"
  by (simp add: tail_def)

text \<open>
  C8, as the code has it. For every non-empty bar sequence the indicators are returned,
  never an error. With \<open>w\<close> the last 100 closes (all of them when there are fewer), the
  z-score is the last close minus the mean of \<open>w\<close> over the sample standard deviation of
  \<open>w\<close> whenever \<open>w\<close> has two closes or more and that deviation is not zero; otherwise it is
  \<open>nan\<close>, and the computation still returns.
\<close>

theorem z_score_formula:
  assumes "df \<noteq> []" and "w = tail LOOKBACK (map close df)"
  shows "\<exists>atr is_trending.
           get_indicators (Some df) =
             Inr (Some (if 2 \<le> length w \<and> spec_stddev w \<noteq> 0
                        then Num (spec_zScore LOOKBACK (map close df)) else NaN,
                        close (last df), atr, is_trending))"
proof -
  have lw: "last w = last (map close df)"
    using assms by (simp add: last_tail LOOKBACK_def)
  have lc: "last (map close df) = close (last df)"
    using assms(1) by (simp add: last_map)
  have z: "fdiv (Num (last (map close df) - mean w)) (std w) =
             (if 2 \<le> length w \<and> spec_stddev w \<noteq> 0
              then Num (spec_zScore LOOKBACK (map close df)) else NaN)"
  proof (cases "2 \<le> length w")
    case False
    then show ?thesis by (simp add: std_def)
  next
    case True
    show ?thesis
    proof (cases "spec_stddev w = 0")
      case True
      with \<open>2 \<le> length w\<close> have "last w = mean w" by (rule std_zero_last)
      with True \<open>2 \<le> length w\<close> lw show ?thesis by (simp add: std_eq)
    next
      case False
      with True show ?thesis
        using assms(2) by (simp add: std_eq spec_zScore_def tail_def spec_mean_eq Let_def)
    qed
  qed
  show ?thesis
    unfolding get_indicators_def using assms z lc
    by (simp add: Let_def del: map_map)
qed

lemma closes_rising: "map close rising = [1, 2, 3]"
  by (simp add: rising_def)

lemma window_rising: "tail LOOKBACK [1, 2, 3 :: real] = [1, 2, 3]"
  by (simp add: tail_def LOOKBACK_def)

lemma stddev_rising: "spec_stddev [1, 2, 3] = 1"
  unfolding spec_stddev_eq by (simp add: mean_def)

lemma zscore_rising: "spec_zScore LOOKBACK [1, 2, 3] = 1"
  unfolding spec_zScore_def Let_def window_rising [unfolded tail_def] stddev_rising spec_mean_eq
  by (simp add: mean_def)

text \<open>
  The theorem at three bars closing at 1, 2 and 3: mean 2, sample standard deviation 1,
  z-score 1.
\<close>

theorem z_score_formula_witness:
  "rising \<noteq> [] \<and> spec_stddev (tail LOOKBACK (map close rising)) = 1 \<and>
   (\<exists>atr is_trending.
      get_indicators (Some rising) = Inr (Some (Num 1, 3, atr, is_trending)))"
proof -
  have ne: "rising \<noteq> []" by (simp add: rising_def)
  have l: "close (last rising) = 3" by (simp add: rising_def)
  from z_score_formula [OF ne refl] show ?thesis
    unfolding closes_rising window_rising stddev_rising zscore_rising l
    using ne by simp
qed

text \<open>
  C8 as stated fails: two bars closing at 100 have a sample standard deviation of zero,
  and the computation returns a signal whose z-score is \<open>nan\<close> instead of failing.
\<close>

theorem constant_closes_give_nan:
  "get_indicators (Some [calm, calm]) = Inr (Some (NaN, 100, NaN, False)) \<and>
   spec_stddev [100, 100] = 0"
proof -
  have "spec_stddev [100, 100] = 0"
    unfolding spec_stddev_eq by (simp add: mean_def)
  moreover have "get_indicators (Some [calm, calm]) = Inr (Some (NaN, 100, NaN, False))"
    by (simp add: get_indicators_def calm_def tail_def LOOKBACK_def mean_def std_def
        rolling_mean_last_def Let_def)
  ultimately show ?thesis by simp
qed

section \<open>The sample bars\<close>

lemma sqrt_16: "sqrt 16 = 4"
  using real_sqrt_abs [of 4] by simp

lemma closes_sample: "map close calm_then_spike = [100,100,100,100,100,100,100,100,100,100,100,100,100,100,100,116]"
  by (simp add: calm_then_spike_def calm_def spike_def)

lemma true_range_sample: "map2 true_range (None # map Some (map close calm_then_spike)) calm_then_spike
   = [None, Some 0,Some 0,Some 0,Some 0,Some 0,Some 0,Some 0,Some 0,Some 0,Some 0,Some 0,Some 0,Some 0,Some 0,Some 16]"
  by (simp add: calm_then_spike_def calm_def spike_def)

lemma z_score_sample: "fdiv (Num (116 - mean (tail LOOKBACK (map close calm_then_spike))))
     (std (tail LOOKBACK (map close calm_then_spike))) = Num (15 / 4)"
  unfolding closes_sample by (simp add: tail_def LOOKBACK_def mean_def std_def sqrt_16)

lemma atr_sample: "rolling_mean_last 14 (map2 true_range (None # map Some (map close calm_then_spike)) calm_then_spike) = Num (8 / 7)"
  unfolding true_range_sample by (simp add: rolling_mean_last_def tail_def)

lemma ma200_sample: "rolling_mean_last 200 (map Some (map close calm_then_spike)) = NaN"
  unfolding closes_sample by (simp add: rolling_mean_last_def tail_def)

lemma get_indicators_sample:
  "get_indicators (Some calm_then_spike) = Inr (Some (Num (15 / 4), 116, Num (8 / 7), False))"
proof -
  have ne: "calm_then_spike \<noteq> []" by (simp add: calm_then_spike_def)
  have l: "last (map close calm_then_spike) = 116" unfolding closes_sample by simp
  show ?thesis
    unfolding get_indicators_def using ne
    by (simp add: Let_def z_score_sample atr_sample ma200_sample l del: map_map)
qed

lemma lot_size_sample: "get_lot_size 1 (1000000 * RISK_PER_TRADE) (Num (1600 / 7)) = Inr (Num (44 / 100), [])"
  by (simp add: get_lot_size_Num raw_lot_def round_real_def round_half_even_def Let_def RISK_PER_TRADE_def)

lemma round_116: "round_real 116 3 = 116"
  by (simp add: round_real_def round_half_even_def Let_def)

section \<open>The branches of the loop body\<close>

lemma get_lot_size_zero:
  assumes "get_lot_size tv r sp = Inr (Num 0, out)"
  shows "\<exists>lot. out = [Print_risk_too_low lot]"
proof -
  have r: "py_round (py_min lot (Num 10)) 2 \<noteq> Num 0" if "\<not> flt lot (Num (1 / 100))" for lot
  proof (cases lot)
    case (Num x)
    with that have "1 / 100 \<le> min x 10" by simp
    then have "1 / 100 \<le> round_real (min x 10) 2" by (rule round_real_2_ge)
    with Num show ?thesis by (auto simp: py_min_def min_def)
  next
    case PInf
    have "1 / 100 \<le> round_real 10 2" by (rule round_real_2_ge) simp
    with PInf show ?thesis by (auto simp: py_min_def)
  next
    case NInf
    with that show ?thesis by simp
  next
    case NaN
    then show ?thesis by (simp add: py_min_def)
  qed
  from assms show ?thesis
    unfolding get_lot_size_def Let_def
    using r by (auto split: if_splits sum.splits)
qed

lemma get_lot_size_out:
  "get_lot_size tv r sp = Inr (v, out) \<Longrightarrow> out = [] \<or> (\<exists>lot. out = [Print_risk_too_low lot])"
  unfolding get_lot_size_def Let_def
  by (auto split: if_splits sum.splits)

lemma entry_branch_rejected:
  assumes "entry_branch e s z px atr tr = Inr (s', out)"
    and "order_retcode e \<noteq> TRADE_RETCODE_DONE"
  shows "\<exists>lots. s' = s \<or> s' = s\<lparr>trade_lots := lots\<rparr>"
  using assms unfolding entry_branch_def Let_def send_market_order_def
  by (auto split: if_splits sum.splits prod.splits)

lemma entry_branch_out:
  assumes "entry_branch e s z px atr tr = Inr (s', out)"
  shows "Positions_get \<notin> set out \<and> length (filter is_order out) \<le> 1"
proof -
  have g: "Positions_get \<notin> set o1 \<and> filter is_order o1 = []"
    if "get_lot_size tv r sp = Inr (v, o1)" for tv r sp v o1
    using get_lot_size_out [OF that] by auto
  from assms show ?thesis
    unfolding entry_branch_def Let_def send_market_order_def log_trade_def
    by (auto split: if_splits sum.splits prod.splits dest!: g)
qed

lemma exit_branch_unfold:
  assumes "trade_entry_time s = Some t0"
    and "hit_target = fle (fabs z) (Num EXIT_Z)"
    and "hit_stop = fle (Num STOP_Z) (fabs z)"
    and "time_exit = (MAX_TRADE_DURATION_HOURS < total_seconds (now_utc_first e - t0) / 3600)"
    and "weekend = (weekday (now_utc_second e) = 4 \<and> 20 \<le> hour (now_utc_second e))"
    and "rq = \<lparr>rq_volume = trade_lots s,
               rq_type = (if held = LONG then ORDER_TYPE_SELL else ORDER_TYPE_BUY),
               rq_price = (if held = LONG then tick_bid e else tick_ask e),
               rq_deviation = None, rq_comment = exit_reason hit_target hit_stop time_exit\<rparr>"
  shows "exit_branch e s held z px =
     (if hit_target \<or> hit_stop \<or> time_exit \<or> weekend then
        (if order_retcode e = TRADE_RETCODE_DONE then
           (case entry_price s of
              None \<Rightarrow> Inl TypeError
            | Some ep \<Rightarrow>
                Inr (s\<lparr>audit_csv := fst (log_trade (now_local e) ''EXIT'' held px (trade_lots s)
                          (fmul (fmul (Num (if held = SHORT then ep - px else px - ep))
                             (trade_lots s)) (Num 100000))
                          (Label (exit_reason hit_target hit_stop time_exit)) (audit_csv s)),
                       active_position := None\<rparr>,
                     [Order_send rq,
                      Print_logged ''EXIT'' held px
                        (Label (exit_reason hit_target hit_stop time_exit))]))
         else Inr (s, [Order_send rq]))
      else Inr (s, []))"
proof -
  have lt: "log_trade st a d p l pn r f = (fst (log_trade st a d p l pn r f), [Print_logged a d p r])"
    for st a d p l pn r f
    by (simp add: log_trade_def Let_def)
  show ?thesis
    unfolding exit_branch_def close_position_def Let_def assms(1) option.case prod.case
      assms(2-6)
    by (subst lt) (simp only: prod.case append.simps)
qed

lemma exit_branch_out:
  assumes "exit_branch e s held z px = Inr (s', out)"
  shows "Positions_get \<notin> set out \<and> length (filter is_order out) \<le> 1"
proof (cases "trade_entry_time s")
  case None
  with assms show ?thesis by (simp add: exit_branch_def)
next
  case (Some t0)
  define hit_target where "hit_target = fle (fabs z) (Num EXIT_Z)"
  define hit_stop where "hit_stop = fle (Num STOP_Z) (fabs z)"
  define time_exit where
    "time_exit = (MAX_TRADE_DURATION_HOURS < total_seconds (now_utc_first e - t0) / 3600)"
  define weekend where
    "weekend = (weekday (now_utc_second e) = 4 \<and> 20 \<le> hour (now_utc_second e))"
  define rq where "rq = \<lparr>rq_volume = trade_lots s,
               rq_type = (if held = LONG then ORDER_TYPE_SELL else ORDER_TYPE_BUY),
               rq_price = (if held = LONG then tick_bid e else tick_ask e),
               rq_deviation = None, rq_comment = exit_reason hit_target hit_stop time_exit\<rparr>"
  note eq = exit_branch_unfold [OF Some hit_target_def hit_stop_def time_exit_def weekend_def rq_def]
  from assms show ?thesis
    unfolding eq by (auto split: if_splits option.splits)
qed

lemma exit_branch_rejected:
  assumes "exit_branch e s held z px = Inr (s', out)"
    and "order_retcode e \<noteq> TRADE_RETCODE_DONE"
  shows "s' = s"
proof (cases "trade_entry_time s")
  case None
  with assms show ?thesis by (simp add: exit_branch_def)
next
  case (Some t0)
  note eq = exit_branch_unfold [OF Some refl refl refl refl refl]
  from assms show ?thesis
    unfolding eq by (simp split: if_splits)
qed

lemma cycle_out:
  assumes "cycle e s = Inr (s', out)"
  shows "Positions_get \<notin> set out \<and> length (filter is_order out) \<le> 1"
  using assms unfolding cycle_def
  by (auto split: if_splits sum.splits option.splits prod.splits
      dest: entry_branch_out exit_branch_out)

lemma run_out: "run es s = Inr (s', out) \<Longrightarrow> Positions_get \<notin> set out"
proof (induction es arbitrary: s s' out)
  case Nil
  then show ?case by simp
next
  case (Cons e es)
  then show ?case
    by (auto split: sum.splits prod.splits dest: cycle_out)
qed

lemma check_existing_position_out:
  "length (filter (\<lambda>x. x = Positions_get) (snd (check_existing_position positions))) = 1"
  by (simp add: check_existing_position_def Let_def split: option.splits list.splits)

lemma disconnected_cycle:
  "cycle (terminal_ok\<lparr>terminal_connected := False\<rparr>) s =
     Inr (s, [Print_connection_lost, Shutdown, Sleep 5, Initialize])"
  by (simp add: cycle_def terminal_ok_def)

lemma cycle_exit_on_time:
  "cycle terminal_ok holding_long =
     Inr (holding_long\<lparr>audit_csv := Some [Header, Row \<lparr>Timestamp = 32400000000, Action = ''EXIT'',
             Status = LONG, Price = 116, Lots = Num (1 / 2), PnL_JPY = Num 300000,
             Reason = Label ''Time''\<rparr>], active_position := None\<rparr>,
          [Order_send \<lparr>rq_volume = Num (1 / 2), rq_type = ORDER_TYPE_SELL, rq_price = 116,
                       rq_deviation = None, rq_comment = ''Time''\<rparr>,
           Print_logged ''EXIT'' LONG 116 (Label ''Time''), Sleep 60])"
  by (simp add: cycle_def terminal_ok_def get_indicators_sample holding_long_def exit_branch_def
      EXIT_Z_def STOP_Z_def MAX_TRADE_DURATION_HOURS_def total_seconds_def weekday_def hour_def
      exit_reason_def close_position_def TRADE_RETCODE_DONE_def log_trade_def round_116
      round_real_def round_half_even_def Let_def)

lemma cycle_exit_rejected:
  "cycle (terminal_ok\<lparr>order_retcode := 10006\<rparr>) holding_long =
     Inr (holding_long,
          [Order_send \<lparr>rq_volume = Num (1 / 2), rq_type = ORDER_TYPE_SELL, rq_price = 116,
                       rq_deviation = None, rq_comment = ''Time''\<rparr>, Sleep 60])"
  by (simp add: cycle_def terminal_ok_def get_indicators_sample holding_long_def exit_branch_def
      EXIT_Z_def STOP_Z_def MAX_TRADE_DURATION_HOURS_def total_seconds_def weekday_def hour_def
      exit_reason_def close_position_def TRADE_RETCODE_DONE_def Let_def)

lemma cycle_entry_filled:
  "cycle terminal_ok flat =
     Inr (\<lparr>active_position = Some SHORT, entry_price = Some 116,
           trade_entry_time = Some 32400000000, trade_lots = Num (44 / 100),
           audit_csv = Some [Header, Row \<lparr>Timestamp = 32400000000, Action = ''ENTRY'',
             Status = SHORT, Price = 116, Lots = Num (44 / 100), PnL_JPY = Num 0,
             Reason = Z_fmt (Num (15 / 4))\<rparr>]\<rparr>,
          [Order_send \<lparr>rq_volume = Num (44 / 100), rq_type = ORDER_TYPE_SELL, rq_price = 116,
                       rq_deviation = Some 20, rq_comment = ''Z-Entry''\<rparr>,
           Print_logged ''ENTRY'' SHORT 116 (Z_fmt (Num (15 / 4))), Sleep 60])"
  by (simp add: cycle_def terminal_ok_def get_indicators_sample flat_def entry_branch_def
      ENTRY_Z_def lot_size_sample send_market_order_def TRADE_RETCODE_DONE_def log_trade_def round_116
      round_real_def round_half_even_def Let_def)

section \<open>Reconnection\<close>

text \<open>
  C1, as the code has it. A cycle that finds the terminal disconnected prints the loss,
  shuts down, sleeps five seconds and initialises again: it submits no order and leaves
  the state as it was. No cycle of the loop queries the open positions, so the loop never
  runs recovery, after a reconnect or otherwise; in a whole run of the script the positions
  are queried exactly once, at startup.
\<close>

theorem reconnect_resumes_without_recovery:
  "(\<not> terminal_connected e \<longrightarrow>
      cycle e s = Inr (s, [Print_connection_lost, Shutdown, Sleep 5, Initialize])) \<and>
   (run cycles s = Inr (s', out) \<longrightarrow> Positions_get \<notin> set out) \<and>
   (script True positions csv cycles = Stopped s'' out' \<longrightarrow>
      length (filter (\<lambda>x. x = Positions_get) out') = 1)"
proof (intro conjI impI)
  assume "\<not> terminal_connected e"
  then show "cycle e s = Inr (s, [Print_connection_lost, Shutdown, Sleep 5, Initialize])"
    by (simp add: cycle_def)
next
  assume "run cycles s = Inr (s', out)"
  then show "Positions_get \<notin> set out" by (rule run_out)
next
  assume a: "script True positions csv cycles = Stopped s'' out'"
  obtain s0 out0 where r: "recover positions
       \<lparr>active_position = None, entry_price = None, trade_entry_time = None,
        trade_lots = Num 0, audit_csv = csv\<rparr> = (s0, out0)"
    by (cases "recover positions
       \<lparr>active_position = None, entry_price = None, trade_entry_time = None,
        trade_lots = Num 0, audit_csv = csv\<rparr>") 
  then have o0: "out0 = snd (check_existing_position positions)"
    by (auto simp: recover_def split: prod.splits)
  from a r obtain out1 where run: "run cycles s0 = Inr (s'', out1)"
    and out': "out' = [Initialize] @ out0 @ [Print_online] @ out1 @ [Print_stopping, Shutdown]"
    by (auto simp: script_def split: sum.splits prod.splits)
  from run have "Positions_get \<notin> set out1" by (rule run_out)
  then have "filter (\<lambda>x. x = Positions_get) out1 = []" by (auto simp: filter_empty_conv)
  with out' o0 show "length (filter (\<lambda>x. x = Positions_get) out') = 1"
    using check_existing_position_out [of positions] by simp
qed

text \<open>
  The theorem at a run of one cycle that finds the terminal disconnected.
\<close>

theorem reconnect_resumes_without_recovery_witness:
  "\<not> terminal_connected (terminal_ok\<lparr>terminal_connected := False\<rparr>) \<and>
   run [terminal_ok\<lparr>terminal_connected := False\<rparr>] flat =
     Inr (flat, [Print_connection_lost, Shutdown, Sleep 5, Initialize]) \<and>
   script True None None [terminal_ok\<lparr>terminal_connected := False\<rparr>] =
     Stopped flat [Initialize, Positions_get, Print_online, Print_connection_lost, Shutdown,
                   Sleep 5, Initialize, Print_stopping, Shutdown] \<and>
   Positions_get \<notin> set [Print_connection_lost, Shutdown, Sleep 5, Initialize]"
proof -
  let ?down = "terminal_ok\<lparr>terminal_connected := False\<rparr>"
  have d: "\<not> terminal_connected ?down" by simp
  have r: "run [?down] flat = Inr (flat, [Print_connection_lost, Shutdown, Sleep 5, Initialize])"
    by (simp add: disconnected_cycle)
  have s: "script True None None [?down] =
     Stopped flat [Initialize, Positions_get, Print_online, Print_connection_lost, Shutdown,
                   Sleep 5, Initialize, Print_stopping, Shutdown]"
    by (simp add: script_def recover_def check_existing_position_def disconnected_cycle
        flat_def)
  from reconnect_resumes_without_recovery [where e = ?down and s = flat and cycles = "[?down]" and s' = flat
      and out = "[Print_connection_lost, Shutdown, Sleep 5, Initialize]"
      and positions = None and csv = None and s'' = flat
      and out' = "[Initialize, Positions_get, Print_online, Print_connection_lost, Shutdown,
                   Sleep 5, Initialize, Print_stopping, Shutdown]"] d r s
  show ?thesis by simp
qed

text \<open>
  C1 as stated fails: the engine holds a long position, one cycle finds the terminal
  disconnected, and the next cycle, connected again, evaluates the exit and sends the
  closing order without any query of the open positions in between.
\<close>

theorem exit_order_after_reconnect:
  "run [terminal_ok\<lparr>terminal_connected := False\<rparr>, terminal_ok] holding_long =
     Inr (holding_long\<lparr>audit_csv := Some [Header, Row \<lparr>Timestamp = 32400000000, Action = ''EXIT'',
             Status = LONG, Price = 116, Lots = Num (1 / 2), PnL_JPY = Num 300000,
             Reason = Label ''Time''\<rparr>], active_position := None\<rparr>,
          [Print_connection_lost, Shutdown, Sleep 5, Initialize,
           Order_send \<lparr>rq_volume = Num (1 / 2), rq_type = ORDER_TYPE_SELL, rq_price = 116,
                       rq_deviation = None, rq_comment = ''Time''\<rparr>,
           Print_logged ''EXIT'' LONG 116 (Label ''Time''), Sleep 60])"
  by (simp add: disconnected_cycle cycle_exit_on_time)

section \<open>Rejected orders\<close>

text \<open>
  C2, as the code has it. In a cycle whose order the terminal does not report as done,
  the held position, the entry price and the entry time are unchanged and the audit file
  is left as it was: no record is written. When a position is held the whole state is
  unchanged. At most one order is sent in a cycle.
\<close>

theorem rejected_order_keeps_position_and_log:
  assumes "cycle e s = Inr (s', out)" and "order_retcode e \<noteq> TRADE_RETCODE_DONE"
  shows "active_position s' = active_position s \<and> entry_price s' = entry_price s \<and>
         trade_entry_time s' = trade_entry_time s \<and> audit_csv s' = audit_csv s \<and>
         (active_position s \<noteq> None \<longrightarrow> s' = s) \<and> length (filter is_order out) \<le> 1"
proof -
  have n: "length (filter is_order out) \<le> 1" using assms(1) cycle_out by blast
  have "(\<exists>lots. s' = s \<or> s' = s\<lparr>trade_lots := lots\<rparr>) \<and> (active_position s \<noteq> None \<longrightarrow> s' = s)"
    using assms unfolding cycle_def
    by (auto split: if_splits sum.splits option.splits prod.splits
        dest: entry_branch_rejected exit_branch_rejected)
  with n show ?thesis by auto
qed

text \<open>
  The theorem at a rejected closing order for a long position.
\<close>

theorem rejected_order_keeps_position_and_log_witness:
  "order_retcode (terminal_ok\<lparr>order_retcode := 10006\<rparr>) \<noteq> TRADE_RETCODE_DONE \<and>
   cycle (terminal_ok\<lparr>order_retcode := 10006\<rparr>) holding_long =
     Inr (holding_long,
          [Order_send \<lparr>rq_volume = Num (1 / 2), rq_type = ORDER_TYPE_SELL, rq_price = 116,
                       rq_deviation = None, rq_comment = ''Time''\<rparr>, Sleep 60]) \<and>
   audit_csv holding_long = None"
proof -
  have rc: "order_retcode (terminal_ok\<lparr>order_retcode := 10006\<rparr>) \<noteq> TRADE_RETCODE_DONE"
    by (simp add: TRADE_RETCODE_DONE_def)
  from rejected_order_keeps_position_and_log [OF cycle_exit_rejected rc] cycle_exit_rejected rc
  show ?thesis by (simp add: holding_long_def)
qed

text \<open>
  C2 as stated fails: a rejected entry order from the flat state leaves the audit file
  absent, so no failure record is written.
\<close>

theorem rejected_entry_writes_no_record:
  "cycle (terminal_ok\<lparr>order_retcode := 10006\<rparr>) flat =
     Inr (flat\<lparr>trade_lots := Num (44 / 100)\<rparr>,
          [Order_send \<lparr>rq_volume = Num (44 / 100), rq_type = ORDER_TYPE_SELL, rq_price = 116,
                       rq_deviation = Some 20, rq_comment = ''Z-Entry''\<rparr>, Sleep 60]) \<and>
   audit_csv (flat\<lparr>trade_lots := Num (44 / 100)\<rparr>) = None"
  by (simp add: cycle_def terminal_ok_def get_indicators_sample flat_def entry_branch_def
      ENTRY_Z_def lot_size_sample send_market_order_def TRADE_RETCODE_DONE_def Let_def)

section \<open>Sizes too small to trade\<close>

text \<open>
  C3, as the code has it. When the entry condition holds in the flat state and the sizer
  returns 0, the cycle prints the warning of the sizer, sends no order, and changes nothing
  but the lot variable, which becomes 0: the position stays flat and the audit file is left
  as it was, without a skip record.
\<close>

theorem zero_size_skips_entry:
  assumes "terminal_connected e"
    and "get_indicators (copy_rates e) = Inr (Some (z, px, atr, is_trending))"
    and "active_position s = None"
    and "flt (Num ENTRY_Z) (fabs z)" and "\<not> is_trending"
    and "get_lot_size (trade_tick_value e) (account_equity e * RISK_PER_TRADE)
           (fmul atr (Num 200)) = Inr (Num 0, out)"
  shows "cycle e s = Inr (s\<lparr>trade_lots := Num 0\<rparr>, out @ [Sleep 60]) \<and>
         (\<exists>lot. out = [Print_risk_too_low lot])"
proof -
  have "entry_branch e s z px atr is_trending = Inr (s\<lparr>trade_lots := Num 0\<rparr>, out)"
    using assms(4,5,6) by (simp add: entry_branch_def Let_def)
  then have "cycle e s = Inr (s\<lparr>trade_lots := Num 0\<rparr>, out @ [Sleep 60])"
    using assms(1,2,3) by (simp add: cycle_def)
  with get_lot_size_zero [OF assms(6)] show ?thesis by simp
qed

text \<open>
  The theorem at the sample bars with an equity of 500.
\<close>

theorem zero_size_skips_entry_witness:
  "flt (Num ENTRY_Z) (fabs (Num (15 / 4))) \<and>
   cycle (terminal_ok\<lparr>account_equity := 500\<rparr>) flat =
     Inr (flat, [Print_risk_too_low (Num (7 / 32000)), Sleep 60])"
proof -
  let ?e = "terminal_ok\<lparr>account_equity := 500\<rparr>"
  have c: "terminal_connected ?e" by (simp add: terminal_ok_def)
  have g: "get_indicators (copy_rates ?e) = Inr (Some (Num (15 / 4), 116, Num (8 / 7), False))"
    by (simp add: terminal_ok_def get_indicators_sample)
  have a: "active_position flat = None" by (simp add: flat_def)
  have z: "flt (Num ENTRY_Z) (fabs (Num (15 / 4)))" by (simp add: ENTRY_Z_def)
  have l: "get_lot_size (trade_tick_value ?e) (account_equity ?e * RISK_PER_TRADE)
             (fmul (Num (8 / 7)) (Num 200)) = Inr (Num 0, [Print_risk_too_low (Num (7 / 32000))])"
    by (simp add: terminal_ok_def get_lot_size_Num raw_lot_def RISK_PER_TRADE_def)
  have f: "flat\<lparr>trade_lots := Num 0\<rparr> = flat" by (simp add: flat_def)
  from zero_size_skips_entry [OF c g a z _ l] z f show ?thesis by simp
qed

text \<open>
  C3 as stated fails: with an equity of 100 the sizer returns 0, and the audit file is
  still absent after the cycle.
\<close>

theorem zero_size_writes_no_record:
  "cycle (terminal_ok\<lparr>account_equity := 100\<rparr>) flat =
     Inr (flat, [Print_risk_too_low (Num (7 / 160000)), Sleep 60]) \<and>
   audit_csv flat = None"
  by (simp add: cycle_def terminal_ok_def get_indicators_sample flat_def entry_branch_def
      ENTRY_Z_def get_lot_size_Num raw_lot_def RISK_PER_TRADE_def Let_def)

section \<open>Exit reasons\<close>

text \<open>
  C4, as the code has it. In an exit evaluation the reason is the label of the first
  condition that holds, in the order target (\<open>|z| <= 0.2\<close>), stop (\<open>|z| >= 4\<close>),
  time (held for more than 8 hours), weekend (Friday from 20:00 UTC); the labels are
  \<open>Target\<close>, \<open>Z-Stop\<close>, \<open>Time\<close> and \<open>Weekend\<close>. When no condition holds nothing
  happens. Otherwise one closing order carries the reason as its comment; when it is
  filled exactly one row with that reason is appended to the audit file and the position
  becomes flat, and when it is not filled the state is unchanged.
\<close>

theorem exit_reason_priority:
  assumes "trade_entry_time s = Some t0" and "entry_price s = Some ep"
    and "hit_target = fle (fabs z) (Num (2 / 10))"
    and "hit_stop = fle (Num 4) (fabs z)"
    and "time_exit = (8 < total_seconds (now_utc_first e - t0) / 3600)"
    and "weekend = (weekday (now_utc_second e) = 4 \<and> 20 \<le> hour (now_utc_second e))"
    and "why = (if hit_target then ''Target'' else if hit_stop then ''Z-Stop''
                else if time_exit then ''Time'' else ''Weekend'')"
  shows "if \<not> (hit_target \<or> hit_stop \<or> time_exit \<or> weekend)
         then exit_branch e s held z px = Inr (s, [])
         else \<exists>rq. rq_comment rq = why \<and>
                (if order_retcode e = TRADE_RETCODE_DONE
                 then \<exists>row. Reason row = Label why \<and>
                        exit_branch e s held z px =
                          Inr (s\<lparr>audit_csv := Some ((case audit_csv s of None \<Rightarrow> [Header]
                                                      | Some ls \<Rightarrow> ls) @ [Row row]),
                                 active_position := None\<rparr>,
                               [Order_send rq, Print_logged ''EXIT'' held px (Label why)])
                 else exit_branch e s held z px = Inr (s, [Order_send rq]))"
proof -
  define rq where "rq = \<lparr>rq_volume = trade_lots s,
               rq_type = (if held = LONG then ORDER_TYPE_SELL else ORDER_TYPE_BUY),
               rq_price = (if held = LONG then tick_bid e else tick_ask e),
               rq_deviation = None, rq_comment = exit_reason hit_target hit_stop time_exit\<rparr>"
  have why: "exit_reason hit_target hit_stop time_exit = why"
    unfolding assms(7) exit_reason_def by simp
  have c: "rq_comment rq = why" by (simp add: rq_def why)
  have eq: "exit_branch e s held z px =
     (if hit_target \<or> hit_stop \<or> time_exit \<or> weekend then
        (if order_retcode e = TRADE_RETCODE_DONE then
           Inr (s\<lparr>audit_csv := fst (log_trade (now_local e) ''EXIT'' held px (trade_lots s)
                          (fmul (fmul (Num (if held = SHORT then ep - px else px - ep))
                             (trade_lots s)) (Num 100000))
                          (Label why) (audit_csv s)),
                       active_position := None\<rparr>,
                     [Order_send rq, Print_logged ''EXIT'' held px (Label why)])
         else Inr (s, [Order_send rq]))
      else Inr (s, []))"
  proof -
    have A: "hit_target = fle (fabs z) (Num EXIT_Z)"
      using assms(3) by (simp add: EXIT_Z_def)
    have B: "hit_stop = fle (Num STOP_Z) (fabs z)"
      using assms(4) by (simp add: STOP_Z_def)
    have C: "time_exit = (MAX_TRADE_DURATION_HOURS < total_seconds (now_utc_first e - t0) / 3600)"
      using assms(5) by (simp add: MAX_TRADE_DURATION_HOURS_def)
    show ?thesis
      unfolding exit_branch_unfold [OF assms(1) A B C assms(6) rq_def] assms(2) option.case why
      by (rule refl)
  qed
  define row where "row = \<lparr>Timestamp = now_local e, Action = ''EXIT'', Status = held,
       Price = round_real px 3, Lots = trade_lots s,
       PnL_JPY = py_round (fmul (fmul (Num (if held = SHORT then ep - px else px - ep))
                             (trade_lots s)) (Num 100000)) 2,
       Reason = Label why\<rparr>"
  have row: "Reason row = Label why"
    "fst (log_trade (now_local e) ''EXIT'' held px (trade_lots s)
                          (fmul (fmul (Num (if held = SHORT then ep - px else px - ep))
                             (trade_lots s)) (Num 100000))
                          (Label why) (audit_csv s)) =
     Some ((case audit_csv s of None \<Rightarrow> [Header] | Some ls \<Rightarrow> ls) @ [Row row])"
    by (simp_all add: log_trade_def Let_def row_def)
  show ?thesis
  proof (cases "hit_target \<or> hit_stop \<or> time_exit \<or> weekend")
    case False
    then show ?thesis unfolding eq by simp
  next
    case True
    show ?thesis
    proof (cases "order_retcode e = TRADE_RETCODE_DONE")
      case d: True
      from True d have "exit_branch e s held z px =
                          Inr (s\<lparr>audit_csv := Some ((case audit_csv s of None \<Rightarrow> [Header]
                                                      | Some ls \<Rightarrow> ls) @ [Row row]),
                                 active_position := None\<rparr>,
                               [Order_send rq, Print_logged ''EXIT'' held px (Label why)])"
        unfolding eq row(2) by simp
      with row(1) have "\<exists>row. Reason row = Label why \<and>
                        exit_branch e s held z px =
                          Inr (s\<lparr>audit_csv := Some ((case audit_csv s of None \<Rightarrow> [Header]
                                                      | Some ls \<Rightarrow> ls) @ [Row row]),
                                 active_position := None\<rparr>,
                               [Order_send rq, Print_logged ''EXIT'' held px (Label why)])"
        by blast
      with c d have "rq_comment rq = why \<and>
                (if order_retcode e = TRADE_RETCODE_DONE
                 then \<exists>row. Reason row = Label why \<and>
                        exit_branch e s held z px =
                          Inr (s\<lparr>audit_csv := Some ((case audit_csv s of None \<Rightarrow> [Header]
                                                      | Some ls \<Rightarrow> ls) @ [Row row]),
                                 active_position := None\<rparr>,
                               [Order_send rq, Print_logged ''EXIT'' held px (Label why)])
                 else exit_branch e s held z px = Inr (s, [Order_send rq]))"
        by (simp only: if_True simp_thms)
      then show ?thesis using True by (simp only: simp_thms if_False) (rule exI)
    next
      case d: False
      from True d have "exit_branch e s held z px = Inr (s, [Order_send rq])"
        unfolding eq by simp
      with c d have "rq_comment rq = why \<and>
                (if order_retcode e = TRADE_RETCODE_DONE
                 then \<exists>row. Reason row = Label why \<and>
                        exit_branch e s held z px =
                          Inr (s\<lparr>audit_csv := Some ((case audit_csv s of None \<Rightarrow> [Header]
                                                      | Some ls \<Rightarrow> ls) @ [Row row]),
                                 active_position := None\<rparr>,
                               [Order_send rq, Print_logged ''EXIT'' held px (Label why)])
                 else exit_branch e s held z px = Inr (s, [Order_send rq]))"
        by (simp only: if_False simp_thms)
      then show ?thesis using True by (simp only: simp_thms if_False) (rule exI)
    qed
  qed
qed

text \<open>
  The theorem at a long position held for nine hours with a z-score of 0.1: target and
  time both hold, and the reason is \<open>Target\<close>.
\<close>

theorem exit_reason_priority_witness:
  "\<exists>rq. rq_comment rq = ''Target'' \<and>
     (\<exists>row. Reason row = Label ''Target'' \<and>
        exit_branch terminal_ok holding_long LONG (Num (1 / 10)) 116 =
          Inr (holding_long\<lparr>audit_csv := Some [Header, Row row], active_position := None\<rparr>,
               [Order_send rq, Print_logged ''EXIT'' LONG 116 (Label ''Target'')]))"
proof -
  have t: "trade_entry_time holding_long = Some 0" by (simp add: holding_long_def)
  have p: "entry_price holding_long = Some 110" by (simp add: holding_long_def)
  have a: "audit_csv holding_long = None" by (simp add: holding_long_def)
  have n: "now_utc_first terminal_ok = 32400000000" "order_retcode terminal_ok = TRADE_RETCODE_DONE"
    by (simp_all add: terminal_ok_def TRADE_RETCODE_DONE_def)
  from exit_reason_priority [OF t p refl refl refl refl refl, of "Num (1 / 10)" terminal_ok LONG 116]
  show ?thesis by (simp add: a n total_seconds_def)
qed

text \<open>
  C4 as stated fails on the label: with a z-score of 4.5, a long position held for 44
  hours and a Friday evening clock, the stop wins over time and weekend, and the reason
  recorded is \<open>Z-Stop\<close>, not \<open>Stop\<close>.
\<close>

theorem stop_exit_is_recorded_as_z_stop:
  "exit_branch (terminal_ok\<lparr>now_utc_first := friday_evening, now_utc_second := friday_evening\<rparr>)
      holding_long LONG (Num (45 / 10)) 116 =
     Inr (holding_long\<lparr>audit_csv := Some [Header, Row \<lparr>Timestamp = 32400000000, Action = ''EXIT'',
             Status = LONG, Price = 116, Lots = Num (1 / 2), PnL_JPY = Num 300000,
             Reason = Label ''Z-Stop''\<rparr>], active_position := None\<rparr>,
          [Order_send \<lparr>rq_volume = Num (1 / 2), rq_type = ORDER_TYPE_SELL, rq_price = 116,
                       rq_deviation = None, rq_comment = ''Z-Stop''\<rparr>,
           Print_logged ''EXIT'' LONG 116 (Label ''Z-Stop'')]) \<and>
   Label ''Z-Stop'' \<noteq> Label ''Stop''"
  by (simp add: terminal_ok_def holding_long_def exit_branch_def friday_evening_def
      EXIT_Z_def STOP_Z_def MAX_TRADE_DURATION_HOURS_def total_seconds_def weekday_def hour_def
      exit_reason_def close_position_def TRADE_RETCODE_DONE_def log_trade_def round_116
      round_real_def round_half_even_def Let_def)

section \<open>Missing and short histories\<close>

lemma rolling_short: "length col < w \<Longrightarrow> rolling_mean_last w col = NaN"
  by (simp add: rolling_mean_last_def tail_def Let_def)

lemma rolling_first_missing:
  "length col = w \<Longrightarrow> 0 < w \<Longrightarrow> col ! 0 = None \<Longrightarrow> rolling_mean_last w col = NaN"
  by (cases col) (auto simp: rolling_mean_last_def tail_def Let_def)

text \<open>
  C5, as the code has it. The cycle is skipped, with the state unchanged and no effect at
  all, when the terminal returns no bars (\<open>None\<close>). A non-empty bar sequence of any
  length yields a signal: below 200 bars the trend filter is false, and below 15 bars the
  average true range is \<open>nan\<close>.
\<close>

theorem missing_rates_skip_cycle:
  "(terminal_connected e \<and> copy_rates e = None \<longrightarrow> cycle e s = Inr (s, [])) \<and>
   (df \<noteq> [] \<longrightarrow>
      (\<exists>z atr is_trending.
         get_indicators (Some df) = Inr (Some (z, close (last df), atr, is_trending)) \<and>
         (length df < 200 \<longrightarrow> \<not> is_trending) \<and> (length df < 15 \<longrightarrow> atr = NaN)))"
proof (intro conjI impI)
  assume "terminal_connected e \<and> copy_rates e = None"
  then show "cycle e s = Inr (s, [])" by (simp add: cycle_def get_indicators_def)
next
  assume ne: "df \<noteq> []"
  let ?closes = "map close df"
  let ?tr = "map2 true_range (None # map Some ?closes) df"
  have lc: "last ?closes = close (last df)" using ne by (simp add: last_map)
  have ma: "rolling_mean_last 200 (map Some ?closes) = NaN" if "length df < 200"
    using that by (simp add: rolling_short)
  have len: "length ?tr = length df" by simp
  have first: "?tr ! 0 = None" using ne by (cases df) auto
  have atr: "rolling_mean_last 14 ?tr = NaN" if "length df < 15"
  proof (cases "length df < 14")
    case True
    then show ?thesis using len by (simp add: rolling_short del: length_map length_zip)
  next
    case False
    with that have "length ?tr = 14" by simp
    then show ?thesis using first by (intro rolling_first_missing) simp_all
  qed
  show "\<exists>z atr is_trending.
         get_indicators (Some df) = Inr (Some (z, close (last df), atr, is_trending)) \<and>
         (length df < 200 \<longrightarrow> \<not> is_trending) \<and> (length df < 15 \<longrightarrow> atr = NaN)"
    unfolding get_indicators_def using ne lc ma atr
    by (simp add: Let_def del: map_map)
qed

text \<open>
  The theorem at a terminal that returns no bars, and at a single bar.
\<close>

theorem missing_rates_skip_cycle_witness:
  "cycle (terminal_ok\<lparr>copy_rates := None\<rparr>) holding_long = Inr (holding_long, []) \<and>
   (\<exists>z. get_indicators (Some [calm]) = Inr (Some (z, 100, NaN, False)))"
proof -
  let ?e = "terminal_ok\<lparr>copy_rates := None\<rparr>"
  have c: "terminal_connected ?e \<and> copy_rates ?e = None" by (simp add: terminal_ok_def)
  have l: "close (last [calm]) = 100" by (simp add: calm_def)
  from missing_rates_skip_cycle [of ?e holding_long "[calm]"] c l show ?thesis by auto
qed

text \<open>
  C5 as stated fails: on the sixteen sample bars, fewer than the lookback, the signal is
  computed, a short order is sent and filled, and the entry is recorded.
\<close>

theorem short_history_is_traded:
  "length calm_then_spike < LOOKBACK + 200 \<and>
   cycle terminal_ok flat =
     Inr (\<lparr>active_position = Some SHORT, entry_price = Some 116,
           trade_entry_time = Some 32400000000, trade_lots = Num (44 / 100),
           audit_csv = Some [Header, Row \<lparr>Timestamp = 32400000000, Action = ''ENTRY'',
             Status = SHORT, Price = 116, Lots = Num (44 / 100), PnL_JPY = Num 0,
             Reason = Z_fmt (Num (15 / 4))\<rparr>]\<rparr>,
          [Order_send \<lparr>rq_volume = Num (44 / 100), rq_type = ORDER_TYPE_SELL, rq_price = 116,
                       rq_deviation = Some 20, rq_comment = ''Z-Entry''\<rparr>,
           Print_logged ''ENTRY'' SHORT 116 (Z_fmt (Num (15 / 4))), Sleep 60])"
  using cycle_entry_filled by (simp add: calm_then_spike_def LOOKBACK_def)

end
